theory Spec2Isabelle
  imports Complex_Main "HOL-Library.Sublist"
begin

section \<open>The script \<open>train.py\<close> and the library it calls\<close>

text \<open>
  \<open>train.py\<close> is a module body of ten statements, every one a call into pandas,
  scikit-learn or the \<open>print\<close> builtin. None of those libraries is part of the repository,
  so the script is modelled over a record holding one function per library operation that
  the script uses. The values the operations exchange (the \<open>DataFrame\<close>, the \<open>Series\<close>, the
  two-dimensional and one-dimensional \<open>ndarray\<close>s, the scalar, the two estimator objects)
  are type parameters. An operation that can raise returns \<open>error + 'a\<close>. The three
  \<open>import\<close> statements of lines 1 to 3 are taken to succeed.
\<close>

datatype error =
    FileNotFoundError
  | ParserError string
  | KeyError "string list"
  | ValueError string
  | AttributeError string
  | LinAlgError string

type_synonym path = string

text \<open>
  What a run can observe of the process it executes in, and what it can change: the files
  (by the path relative to the working directory), the environment variables, the command
  line, and the text written to standard output so far.
\<close>

record world =
  files :: "path \<rightharpoonup> string"
  environ :: "string \<rightharpoonup> string"
  argv :: "string list"
  stdout :: string

text \<open>
  The library operations of the script, in the order of their first use.
  \<^item> \<open>read_csv\<close> is \<open>pd.read_csv\<close> applied to the content found at the path
    (\<open>None\<close> when no file has that path);
  \<^item> \<open>getitem_list\<close> is \<open>DataFrame.__getitem__\<close> with a list of labels, \<open>getitem\<close> with one
    label;
  \<^item> \<open>PolynomialFeatures\<close> and \<open>LinearRegression\<close> are the two constructors, which only
    store their parameters; every parameter but \<open>degree\<close> keeps its default;
  \<^item> \<open>fit_transform\<close> gives the expanded matrix; the fitted state it leaves in the
    transformer object is never read again by the script and is not modelled;
  \<^item> \<open>fit\<close> gives the estimator object as it is after the call (the script discards the
    return value and goes on with the mutated object);
  \<^item> \<open>predict\<close> gives the prediction and leaves the estimator as it is;
  \<^item> \<open>coef\<close> and \<open>intercept\<close> are the attribute reads \<open>model.coef_\<close> and \<open>model.intercept_\<close>;
  \<^item> \<open>str_vec\<close> and \<open>str_num\<close> are \<open>str\<close> on the two values that are printed.
\<close>

record ('df, 'ser, 'mat, 'vec, 'num, 'pf, 'lr) lib =
  read_csv :: "string option \<Rightarrow> error + 'df"
  getitem_list :: "'df \<Rightarrow> string list \<Rightarrow> error + 'df"
  getitem :: "'df \<Rightarrow> string \<Rightarrow> error + 'ser"
  PolynomialFeatures :: "nat \<Rightarrow> 'pf"
  fit_transform :: "'pf \<Rightarrow> 'df \<Rightarrow> error + 'mat"
  LinearRegression :: "'lr"
  fit :: "'lr \<Rightarrow> 'mat \<Rightarrow> 'ser \<Rightarrow> error + 'lr"
  predict :: "'lr \<Rightarrow> 'mat \<Rightarrow> error + 'vec"
  coef :: "'lr \<Rightarrow> error + 'vec"
  intercept :: "'lr \<Rightarrow> error + 'num"
  str_vec :: "'vec \<Rightarrow> string"
  str_num :: "'num \<Rightarrow> string"

text \<open>
  Every library call of a run is logged with its arguments and with the error it raised,
  if any. The log is what the claims about the order of the steps are stated on. Each
  call belongs to one of the five steps of the script: loading the table and taking its
  columns (lines 6 to 10), the polynomial expansion (13, 14), the fit (17, 18), the
  prediction (21) and the output (24, 25).
\<close>

datatype ('df, 'ser, 'mat, 'pf, 'lr) call =
    ReadCsv path
  | GetItemList 'df "string list"
  | GetItem 'df string
  | NewPolynomialFeatures nat
  | FitTransform 'pf 'df
  | NewLinearRegression
  | Fit 'lr 'mat 'ser
  | Predict 'lr 'mat
  | GetCoef 'lr
  | GetIntercept 'lr
  | Print string

datatype step = Load | Transform | FitModel | PredictModel | Output

fun step_of :: "('df, 'ser, 'mat, 'pf, 'lr) call \<Rightarrow> step" where
  "step_of (ReadCsv p) = Load"
| "step_of (GetItemList d ns) = Load"
| "step_of (GetItem d n) = Load"
| "step_of (NewPolynomialFeatures k) = Transform"
| "step_of (FitTransform t d) = Transform"
| "step_of NewLinearRegression = FitModel"
| "step_of (Fit m x y) = FitModel"
| "step_of (Predict m x) = PredictModel"
| "step_of (GetCoef m) = Output"
| "step_of (GetIntercept m) = Output"
| "step_of (Print s) = Output"

record ('df, 'ser, 'mat, 'pf, 'lr) session = world +
  calls :: "(('df, 'ser, 'mat, 'pf, 'lr) call \<times> error option) list"

type_synonym ('df, 'ser, 'mat, 'pf, 'lr, 'a) prog =
  "('df, 'ser, 'mat, 'pf, 'lr) session \<Rightarrow> (error + 'a) \<times> ('df, 'ser, 'mat, 'pf, 'lr) session"

text \<open>Sequencing: an exception ends the run, nothing catches it.\<close>

definition bind ::
  "('df, 'ser, 'mat, 'pf, 'lr, 'a) prog \<Rightarrow> ('a \<Rightarrow> ('df, 'ser, 'mat, 'pf, 'lr, 'b) prog)
    \<Rightarrow> ('df, 'ser, 'mat, 'pf, 'lr, 'b) prog" where
  "bind m f = (\<lambda>s. case m s of (Inl e, s') \<Rightarrow> (Inl e, s') | (Inr x, s') \<Rightarrow> f x s')"

definition raised :: "error + 'a \<Rightarrow> error option" where
  "raised r = (case r of Inl e \<Rightarrow> Some e | Inr x \<Rightarrow> None)"

definition lib_call ::
  "('df, 'ser, 'mat, 'pf, 'lr) call \<Rightarrow> error + 'a \<Rightarrow> ('df, 'ser, 'mat, 'pf, 'lr, 'a) prog" where
  "lib_call c r = (\<lambda>s. (r, s\<lparr>calls := calls s @ [(c, raised r)]\<rparr>))"

definition pd_read_csv ::
  "('df, 'ser, 'mat, 'vec, 'num, 'pf, 'lr) lib \<Rightarrow> path \<Rightarrow> ('df, 'ser, 'mat, 'pf, 'lr, 'df) prog" where
  "pd_read_csv L p = (\<lambda>s. lib_call (ReadCsv p) (read_csv L (files s p)) s)"

text \<open>
  \<open>print(a, b)\<close> writes \<open>str(a)\<close>, a space, \<open>str(b)\<close> and a newline to standard output.
\<close>

definition print ::
  "string \<Rightarrow> string \<Rightarrow> ('df, 'ser, 'mat, 'pf, 'lr, unit) prog" where
  "print a b = (\<lambda>s. (Inr (), s\<lparr>stdout := stdout s @ a @ '' '' @ b @ [CHR 0x0A],
                                calls := calls s @ [(Print (a @ '' '' @ b), None)]\<rparr>))"

text \<open>The module body of \<open>train.py\<close>, statement by statement.\<close>

definition train ::
  "('df, 'ser, 'mat, 'vec, 'num, 'pf, 'lr) lib \<Rightarrow> ('df, 'ser, 'mat, 'pf, 'lr, unit) prog" where
  "train L =
     bind (pd_read_csv L ''sample.csv'') (\<lambda>data.
     bind (lib_call (GetItemList data [''value'', ''age''])
             (getitem_list L data [''value'', ''age''])) (\<lambda>X.
     bind (lib_call (GetItem data ''name'') (getitem L data ''name'')) (\<lambda>y.
     bind (lib_call (NewPolynomialFeatures 2) (Inr (PolynomialFeatures L 2))) (\<lambda>poly_features.
     bind (lib_call (FitTransform poly_features X) (fit_transform L poly_features X)) (\<lambda>X_poly.
     bind (lib_call NewLinearRegression (Inr (LinearRegression L))) (\<lambda>model0.
     bind (lib_call (Fit model0 X_poly y) (fit L model0 X_poly y)) (\<lambda>model.
     bind (lib_call (Predict model X_poly) (predict L model X_poly)) (\<lambda>y_pred.
     bind (lib_call (GetCoef model) (coef L model)) (\<lambda>c.
     bind (print ''Coefficients:'' (str_vec L c)) (\<lambda>_.
     bind (lib_call (GetIntercept model) (intercept L model)) (\<lambda>i.
     print ''Intercept:'' (str_num L i))))))))))))"


definition start :: "world \<Rightarrow> ('df, 'ser, 'mat, 'pf, 'lr) session" where
  "start w = \<lparr>files = files w, environ = environ w, argv = argv w, stdout = stdout w,
              calls = []\<rparr>"

text \<open>One execution of the script in the world \<open>w\<close>, with the library \<open>L\<close>.\<close>

definition run ::
  "('df, 'ser, 'mat, 'vec, 'num, 'pf, 'lr) lib \<Rightarrow> world
    \<Rightarrow> (error + unit) \<times> ('df, 'ser, 'mat, 'pf, 'lr) session" where
  "run L w = train L (start w)"

text \<open>The text a run adds to standard output, and the steps of its calls.\<close>

definition printed :: "('df, 'ser, 'mat, 'vec, 'num, 'pf, 'lr) lib \<Rightarrow> world \<Rightarrow> string" where
  "printed L w = drop (length (stdout w)) (stdout (snd (run L w)))"

definition steps :: "('df, 'ser, 'mat, 'vec, 'num, 'pf, 'lr) lib \<Rightarrow> world \<Rightarrow> step list" where
  "steps L w = map (\<lambda>cr. step_of (fst cr)) (calls (snd (run L w)))"

text \<open>
  The steps of the twelve library calls of the module body, in program order: lines 6 to
  10 (the table and its columns), 13 and 14, 17 and 18, 21, 24 and 25.
\<close>

definition program_steps :: "step list" where
  "program_steps = [Load, Load, Load, Transform, Transform, FitModel, FitModel,
                    PredictModel, Output, Output, Output, Output]"

text \<open>
  The linear sequence of the specification, written out: the twelve calls in program
  order, each applied to what the calls before it returned and logged with what the
  library raises on it. Nothing in it is chosen by the data. A run follows a sequence
  \<open>until_raise\<close>: up to and including the first call that raises. \<open>written\<close> is the text
  that the print calls of a log put on standard output.
\<close>

fun until_raise :: "('c \<times> error option) list \<Rightarrow> ('c \<times> error option) list" where
  "until_raise [] = []"
| "until_raise (cr # crs) = (if snd cr = None then cr # until_raise crs else [cr])"

definition linear_sequence ::
  "('df, 'ser, 'mat, 'vec, 'num, 'pf, 'lr) lib \<Rightarrow> world
    \<Rightarrow> (('df, 'ser, 'mat, 'pf, 'lr) call \<times> error option) list" where
  "linear_sequence L w =
     (let r1 = read_csv L (files w ''sample.csv''); data = projr r1;
          r2 = getitem_list L data [''value'', ''age'']; X = projr r2;
          r3 = getitem L data ''name''; y = projr r3;
          poly_features = PolynomialFeatures L 2;
          r5 = fit_transform L poly_features X; X_poly = projr r5;
          model0 = LinearRegression L;
          r7 = fit L model0 X_poly y; model = projr r7;
          r8 = predict L model X_poly;
          r9 = coef L model;
          r11 = intercept L model
      in [(ReadCsv ''sample.csv'', raised r1),
          (GetItemList data [''value'', ''age''], raised r2),
          (GetItem data ''name'', raised r3),
          (NewPolynomialFeatures 2, None),
          (FitTransform poly_features X, raised r5),
          (NewLinearRegression, None),
          (Fit model0 X_poly y, raised r7),
          (Predict model X_poly, raised r8),
          (GetCoef model, raised r9),
          (Print (''Coefficients: '' @ str_vec L (projr r9)), None),
          (GetIntercept model, raised r11),
          (Print (''Intercept: '' @ str_num L (projr r11)), None)])"

fun written :: "(('df, 'ser, 'mat, 'pf, 'lr) call \<times> error option) list \<Rightarrow> string" where
  "written [] = []"
| "written ((Print t, r) # crs) = t @ [CHR 0x0A] @ written crs"
| "written (cr # crs) = written crs"

text \<open>A line of text ends with a newline character; \<open>line_count\<close> counts them.\<close>

definition line_count :: "string \<Rightarrow> nat" where
  "line_count t = length (filter (\<lambda>ch. ch = CHR 0x0A) t)"

text \<open>What the library raises on the arguments of a logged call, in the world \<open>w\<close>.\<close>

fun library_raises ::
  "('df, 'ser, 'mat, 'vec, 'num, 'pf, 'lr) lib \<Rightarrow> world
    \<Rightarrow> ('df, 'ser, 'mat, 'pf, 'lr) call \<Rightarrow> error option" where
  "library_raises L w (ReadCsv p) = raised (read_csv L (files w p))"
| "library_raises L w (GetItemList d ns) = raised (getitem_list L d ns)"
| "library_raises L w (GetItem d n) = raised (getitem L d n)"
| "library_raises L w (NewPolynomialFeatures k) = None"
| "library_raises L w (FitTransform t d) = raised (fit_transform L t d)"
| "library_raises L w NewLinearRegression = None"
| "library_raises L w (Fit m x y) = raised (fit L m x y)"
| "library_raises L w (Predict m x) = raised (predict L m x)"
| "library_raises L w (GetCoef m) = raised (coef L m)"
| "library_raises L w (GetIntercept m) = raised (intercept L m)"
| "library_raises L w (Print t) = None"

fun is_read :: "('df, 'ser, 'mat, 'pf, 'lr) call \<Rightarrow> bool" where
  "is_read (ReadCsv p) = True"
| "is_read c = False"

fun is_predict :: "('df, 'ser, 'mat, 'pf, 'lr) call \<Rightarrow> bool" where
  "is_predict (Predict m x) = True"
| "is_predict c = False"

text \<open>
  The script with line 21, the \<open>predict\<close> call, removed; every other statement is as in
  \<open>train\<close>.
\<close>

definition train_without_predict ::
  "('df, 'ser, 'mat, 'vec, 'num, 'pf, 'lr) lib \<Rightarrow> ('df, 'ser, 'mat, 'pf, 'lr, unit) prog" where
  "train_without_predict L =
     bind (pd_read_csv L ''sample.csv'') (\<lambda>data.
     bind (lib_call (GetItemList data [''value'', ''age''])
             (getitem_list L data [''value'', ''age''])) (\<lambda>X.
     bind (lib_call (GetItem data ''name'') (getitem L data ''name'')) (\<lambda>y.
     bind (lib_call (NewPolynomialFeatures 2) (Inr (PolynomialFeatures L 2))) (\<lambda>poly_features.
     bind (lib_call (FitTransform poly_features X) (fit_transform L poly_features X)) (\<lambda>X_poly.
     bind (lib_call NewLinearRegression (Inr (LinearRegression L))) (\<lambda>model0.
     bind (lib_call (Fit model0 X_poly y) (fit L model0 X_poly y)) (\<lambda>model.
     bind (lib_call (GetCoef model) (coef L model)) (\<lambda>c.
     bind (print ''Coefficients:'' (str_vec L c)) (\<lambda>_.
     bind (lib_call (GetIntercept model) (intercept L model)) (\<lambda>i.
     print ''Intercept:'' (str_num L i)))))))))))"

definition run_without_predict ::
  "('df, 'ser, 'mat, 'vec, 'num, 'pf, 'lr) lib \<Rightarrow> world
    \<Rightarrow> (error + unit) \<times> ('df, 'ser, 'mat, 'pf, 'lr) session" where
  "run_without_predict L w = train_without_predict L (start w)"


section \<open>The library as the specification describes it\<close>

text \<open>
  The claims about what the expansion and the fitted model contain are claims about
  scikit-learn and pandas, whose code is not in the repository. For them the library is
  modelled from the words of the specification: a table of rows with named fields,
  selection of columns that fails on a missing one, the expansion of the input variables
  into their polynomial combinations up to a degree, and a linear model of coefficients and
  an intercept. Numbers are of any commutative (semi)ring; floating-point rounding is not
  modelled. What the specification leaves open (the file format, the least-squares solver,
  the rendering of numbers) stays a parameter.
\<close>

datatype 'a cell = Num 'a | Str string | NaN

record 'a frame =
  columns :: "string list"
  rws :: "'a cell list list"

record 'a linear_model =
  lm_coef :: "'a list"
  lm_intercept :: "'a"

record 'a backend =
  parse_csv :: "string \<Rightarrow> error + 'a frame"
  lstsq :: "'a list list \<Rightarrow> 'a list \<Rightarrow> error + ('a list \<times> 'a)"
  show_vec :: "'a list \<Rightarrow> string"
  show_num :: "'a \<Rightarrow> string"

text \<open>
  Modelled from the spec: \<open>pd.read_csv\<close>, absent from src/. It reads tabular data from
  the file; a file that is not there or is malformed makes it raise.
\<close>

definition spec_read_csv :: "'a backend \<Rightarrow> string option \<Rightarrow> error + 'a frame" where
  "spec_read_csv B content =
     (case content of None \<Rightarrow> Inl FileNotFoundError | Some txt \<Rightarrow> parse_csv B txt)"

text \<open>The field of a row under a column label; a row too short to have it holds no value.\<close>

definition cell_at :: "'a frame \<Rightarrow> 'a cell list \<Rightarrow> string \<Rightarrow> 'a cell" where
  "cell_at df r n = (case map_of (zip (columns df) r) n of Some c \<Rightarrow> c | None \<Rightarrow> NaN)"

text \<open>
  Modelled from the spec: \<open>DataFrame.__getitem__\<close>, absent from src/. Selecting columns
  gives the table of those columns; a missing column makes it raise, with the labels that
  are missing.
\<close>

definition spec_getitem_list :: "'a frame \<Rightarrow> string list \<Rightarrow> error + 'a frame" where
  "spec_getitem_list df ns =
     (case filter (\<lambda>n. n \<notin> set (columns df)) ns of
        [] \<Rightarrow> Inr \<lparr>columns = ns, rws = map (\<lambda>r. map (cell_at df r) ns) (rws df)\<rparr>
      | m # ms \<Rightarrow> Inl (KeyError (m # ms)))"

definition spec_getitem :: "'a frame \<Rightarrow> string \<Rightarrow> error + 'a cell list" where
  "spec_getitem df n =
     (if n \<in> set (columns df) then Inr (map (\<lambda>r. cell_at df r n) (rws df))
      else Inl (KeyError [n]))"

fun number :: "'a cell \<Rightarrow> 'a option" where
  "number (Num x) = Some x"
| "number (Str s) = None"
| "number NaN = None"

definition numbers :: "'a cell list \<Rightarrow> 'a list option" where
  "numbers cs = those (map number cs)"

text \<open>
  Modelled from the spec: \<open>PolynomialFeatures.fit_transform\<close>, absent from src/:
  ``expansion of input variables into their polynomial combinations up to a given
  degree''. \<open>products k xs\<close> lists the products of \<open>k\<close> of the variables \<open>xs\<close>, with
  repetition, in lexicographic order; the expansion of a row lists them by degree, from
  the constant on.
\<close>

fun products :: "nat \<Rightarrow> 'a::comm_semiring_1 list \<Rightarrow> 'a list" where
  "products 0 xs = [1]"
| "products (Suc k) [] = []"
| "products (Suc k) (x # xs) = map (\<lambda>p. x * p) (products k (x # xs)) @ products (Suc k) xs"

definition polynomial_features :: "nat \<Rightarrow> 'a::comm_semiring_1 list \<Rightarrow> 'a list" where
  "polynomial_features d xs = concat (map (\<lambda>k. products k xs) [0..<Suc d])"

definition spec_fit_transform ::
  "nat \<Rightarrow> 'a::comm_semiring_1 frame \<Rightarrow> error + 'a list list" where
  "spec_fit_transform d X =
     (case those (map numbers (rws X)) of
        None \<Rightarrow> Inl (ValueError ''could not convert to float'')
      | Some M \<Rightarrow> Inr (map (polynomial_features d) M))"

text \<open>
  Modelled from the spec: \<open>LinearRegression\<close>, absent from src/: coefficients and an
  intercept are ``the fitted parameters of a linear model mapping expanded features to a
  predicted target value''. An estimator that has not been fitted holds no parameters.
\<close>

definition linear_predict :: "'a::comm_semiring_1 linear_model \<Rightarrow> 'a list \<Rightarrow> 'a" where
  "linear_predict m row = lm_intercept m + sum_list (map2 (*) (lm_coef m) row)"

definition spec_fit ::
  "'a backend \<Rightarrow> 'a linear_model option \<Rightarrow> 'a list list \<Rightarrow> 'a cell list
    \<Rightarrow> error + 'a linear_model option" where
  "spec_fit B m X y =
     (case numbers y of
        None \<Rightarrow> Inl (ValueError ''could not convert to float'')
      | Some t \<Rightarrow>
          (case lstsq B X t of
             Inl e \<Rightarrow> Inl e
           | Inr (c, i) \<Rightarrow> Inr (Some \<lparr>lm_coef = c, lm_intercept = i\<rparr>)))"

definition spec_predict ::
  "'a::comm_semiring_1 linear_model option \<Rightarrow> 'a list list \<Rightarrow> error + 'a list" where
  "spec_predict m X =
     (case m of None \<Rightarrow> Inl (AttributeError ''not fitted'')
              | Some lm \<Rightarrow> Inr (map (linear_predict lm) X))"

definition spec_coef :: "'a linear_model option \<Rightarrow> error + 'a list" where
  "spec_coef m =
     (case m of None \<Rightarrow> Inl (AttributeError ''coef_'') | Some lm \<Rightarrow> Inr (lm_coef lm))"

definition spec_intercept :: "'a linear_model option \<Rightarrow> error + 'a" where
  "spec_intercept m =
     (case m of None \<Rightarrow> Inl (AttributeError ''intercept_'') | Some lm \<Rightarrow> Inr (lm_intercept lm))"

definition spec_lib ::
  "'a::comm_semiring_1 backend \<Rightarrow>
   ('a frame, 'a cell list, 'a list list, 'a list, 'a, nat, 'a linear_model option) lib" where
  "spec_lib B =
     \<lparr>read_csv = spec_read_csv B,
      getitem_list = spec_getitem_list,
      getitem = spec_getitem,
      PolynomialFeatures = (\<lambda>degree. degree),
      fit_transform = spec_fit_transform,
      LinearRegression = None,
      fit = spec_fit B,
      predict = spec_predict,
      coef = spec_coef,
      intercept = spec_intercept,
      str_vec = show_vec B,
      str_num = show_num B\<rparr>"

section \<open>A concrete backend, for running the script on example files\<close>

text \<open>
  A small backend in exact rational arithmetic: a reader of comma-separated files whose
  fields are unsigned integers or text, a least-squares solver by elimination on the
  normal equations of the centred columns, and a rendering of vectors in the manner of
  numpy (elements padded to a common width, a line break before the element that would
  pass column 75). It stands in for the real libraries only where a theorem is run on an
  example.
\<close>

fun split_on :: "char \<Rightarrow> string \<Rightarrow> string list" where
  "split_on d [] = [[]]"
| "split_on d (c # cs) =
     (if c = d then [] # split_on d cs
      else (case split_on d cs of [] \<Rightarrow> [[c]] | f # fs \<Rightarrow> (c # f) # fs))"

definition digit_of :: "char \<Rightarrow> int option" where
  "digit_of c = map_of (zip ''0123456789'' [0, 1, 2, 3, 4, 5, 6, 7, 8, 9]) c"

fun parse_int :: "int \<Rightarrow> string \<Rightarrow> int option" where
  "parse_int acc [] = Some acc"
| "parse_int acc (c # cs) =
     (case digit_of c of None \<Rightarrow> None | Some d \<Rightarrow> parse_int (10 * acc + d) cs)"

definition parse_cell :: "string \<Rightarrow> rat cell" where
  "parse_cell s =
     (if s = [] then NaN
      else (case parse_int 0 s of Some n \<Rightarrow> Num (of_int n) | None \<Rightarrow> Str s))"

definition demo_parse_csv :: "string \<Rightarrow> error + rat frame" where
  "demo_parse_csv txt =
     (case filter (\<lambda>l. l \<noteq> []) (split_on (CHR 0x0A) txt) of
        [] \<Rightarrow> Inl (ParserError ''No columns to parse from file'')
      | h # ls \<Rightarrow>
          (let cs = split_on (CHR '','') h; rs = map (split_on (CHR '','')) ls
           in if \<exists>r \<in> set rs. length cs < length r
              then Inl (ParserError ''Error tokenizing data'')
              else Inr \<lparr>columns = cs, rws = map (map parse_cell) rs\<rparr>))"

definition mean :: "rat list \<Rightarrow> rat" where
  "mean xs = sum_list xs / of_nat (length xs)"

definition dot :: "rat list \<Rightarrow> rat list \<Rightarrow> rat" where
  "dot xs ys = sum_list (map2 (*) xs ys)"

text \<open>The first row with a non-zero leading entry, and the other rows.\<close>

fun put_back :: "rat list \<Rightarrow> (rat list \<times> rat list list) option
    \<Rightarrow> (rat list \<times> rat list list) option" where
  "put_back r None = None"
| "put_back r (Some (p, qs)) = Some (p, r # qs)"

fun pivot :: "rat list list \<Rightarrow> (rat list \<times> rat list list) option" where
  "pivot [] = None"
| "pivot (r # rs) =
     (if r \<noteq> [] \<and> hd r \<noteq> 0 then Some (r, rs) else put_back r (pivot rs))"

text \<open>
  Elimination on \<open>n\<close> equations in \<open>n\<close> unknowns, each row the coefficients followed by
  the right-hand side: the pivot row is scaled to a leading one (which is dropped), taken
  out of the other rows, and its unknown is found from the solution of the rest. \<open>None\<close>
  when the system is singular.
\<close>

definition scaled :: "rat list \<Rightarrow> rat list" where
  "scaled p = map (\<lambda>x. x / hd p) (tl p)"

definition reduced :: "rat list \<Rightarrow> rat list list \<Rightarrow> rat list list" where
  "reduced p' qs = map (\<lambda>q. map2 (\<lambda>x y. x - hd q * y) (tl q) p') qs"

fun back_subst :: "rat list \<Rightarrow> rat list option \<Rightarrow> rat list option" where
  "back_subst p' None = None"
| "back_subst p' (Some xs) = Some ((last p' - dot (butlast p') xs) # xs)"

fun eliminate :: "nat \<Rightarrow> (rat list \<times> rat list list) option \<Rightarrow> rat list option" where
  "eliminate n None = None"
| "eliminate 0 (Some (p, qs)) = back_subst (scaled p) (Some [])"
| "eliminate (Suc n) (Some (p, qs)) =
     back_subst (scaled p) (eliminate n (pivot (reduced (scaled p) qs)))"

fun solve :: "nat \<Rightarrow> rat list list \<Rightarrow> rat list option" where
  "solve 0 rows = Some []"
| "solve (Suc n) rows = eliminate n (pivot rows)"

fun place :: "bool list \<Rightarrow> rat list \<Rightarrow> rat list" where
  "place [] bs = []"
| "place (True # fs) (b # bs) = b # place fs bs"
| "place (True # fs) [] = 0 # place fs []"
| "place (False # fs) bs = 0 # place fs bs"

definition varies :: "rat list \<Rightarrow> bool" where
  "varies c = (\<exists>x \<in> set c. x \<noteq> 0)"

fun columns_along :: "'b list \<Rightarrow> rat list list \<Rightarrow> rat list list" where
  "columns_along [] X = []"
| "columns_along (h # t) X = map hd X # columns_along t (map tl X)"

definition columns_of :: "rat list list \<Rightarrow> rat list list" where
  "columns_of X = columns_along (hd X) X"

definition centred :: "rat list \<Rightarrow> rat list" where
  "centred c = map (\<lambda>x. x - mean c) c"

definition normal_equations :: "rat list list \<Rightarrow> rat list \<Rightarrow> rat list list" where
  "normal_equations live yc = map (\<lambda>c. map (dot c) live @ [dot c yc]) live"

text \<open>
  The coefficient of a column that does not vary is zero; the intercept makes the model
  pass through the means.
\<close>

fun fitted :: "rat list list \<Rightarrow> rat list \<Rightarrow> rat list option \<Rightarrow> error + (rat list \<times> rat)" where
  "fitted cols y None = Inl (LinAlgError ''singular matrix'')"
| "fitted cols y (Some b) =
     Inr (place (map (\<lambda>c. varies (centred c)) cols) b,
          mean y - dot (place (map (\<lambda>c. varies (centred c)) cols) b) (map mean cols))"

definition demo_lstsq :: "rat list list \<Rightarrow> rat list \<Rightarrow> error + (rat list \<times> rat)" where
  "demo_lstsq X y =
     (if X = [] \<or> (\<exists>r \<in> set X. length r \<noteq> length (hd X))
      then Inl (ValueError ''bad shape'')
      else fitted (columns_of X) y
             (solve (length (filter varies (map centred (columns_of X))))
                (normal_equations (filter varies (map centred (columns_of X))) (centred y))))"

function show_digits :: "int \<Rightarrow> string" where
  "show_digits i =
     (if i < 10 then [''0123456789'' ! nat i]
      else show_digits (i div 10) @ [''0123456789'' ! nat (i mod 10)])"
  by pat_completeness auto
termination
  by (relation "measure nat") auto

definition show_int :: "int \<Rightarrow> string" where
  "show_int i = (if i < 0 then ''-'' @ show_digits (- i) else show_digits i)"

definition show_rat :: "rat \<Rightarrow> string" where
  "show_rat q =
     (case quotient_of q of
        (n, d) \<Rightarrow> if d = 1 then show_int n else show_int n @ ''/'' @ show_int d)"

fun wrap_words :: "nat \<Rightarrow> nat \<Rightarrow> string list \<Rightarrow> string" where
  "wrap_words lw used [] = []"
| "wrap_words lw used (wd # wds) =
     (if lw < used + 1 + length wd + 1
      then [CHR 0x0A] @ '' '' @ wd @ wrap_words lw (1 + length wd) wds
      else '' '' @ wd @ wrap_words lw (used + 1 + length wd) wds)"

definition pad_left :: "nat \<Rightarrow> string \<Rightarrow> string" where
  "pad_left w s = replicate (w - length s) (CHR '' '') @ s"

definition demo_show_vec :: "rat list \<Rightarrow> string" where
  "demo_show_vec xs =
     (let ws = map show_rat xs;
          w = fold max (map length ws) 0
      in (case map (pad_left w) ws of
            [] \<Rightarrow> ''[]''
          | wd # wds \<Rightarrow> ''['' @ wd @ wrap_words 75 (1 + length wd) wds @ '']''))"

definition demo_backend :: "rat backend" where
  "demo_backend =
     \<lparr>parse_csv = demo_parse_csv, lstsq = demo_lstsq,
      show_vec = demo_show_vec, show_num = show_rat\<rparr>"

definition demo_lib ::
  "(rat frame, rat cell list, rat list list, rat list, rat, nat, rat linear_model option) lib" where
  "demo_lib = spec_lib demo_backend"

definition in_cwd :: "string \<Rightarrow> world" where
  "in_cwd txt = \<lparr>files = [''sample.csv'' \<mapsto> txt], environ = Map.empty, argv = [''train.py''],
                 stdout = []\<rparr>"

text \<open>
  Three example files: six rows whose target is \<open>2 + 3 value + age\<^sup>2\<close>; a table without
  the column \<open>value\<close>; and the first table with the target scaled by \<open>10\<^sup>1\<^sup>5\<close>.
\<close>

definition sample_ok :: string where
  "sample_ok = ''value,age,name'' @ [CHR 0x0A] @ ''0,0,2'' @ [CHR 0x0A] @ ''1,0,5'' @ [CHR 0x0A] @
     ''0,1,3'' @ [CHR 0x0A] @ ''1,1,6'' @ [CHR 0x0A] @ ''2,1,9'' @ [CHR 0x0A] @ ''1,2,9'' @ [CHR 0x0A]"

definition sample_no_value :: string where
  "sample_no_value = ''age,name'' @ [CHR 0x0A] @ ''1,3'' @ [CHR 0x0A] @ ''2,5'' @ [CHR 0x0A]"

definition sample_wide :: string where
  "sample_wide = ''value,age,name'' @ [CHR 0x0A] @
     ''0,0,2000000000000000'' @ [CHR 0x0A] @ ''1,0,5000000000000000'' @ [CHR 0x0A] @
     ''0,1,3000000000000000'' @ [CHR 0x0A] @ ''1,1,6000000000000000'' @ [CHR 0x0A] @
     ''2,1,9000000000000000'' @ [CHR 0x0A] @ ''1,2,9000000000000000'' @ [CHR 0x0A]"


text \<open>
  A fourth example file, with a column the script does not use and rows that stop short of
  it: five of its six records have fewer fields than the header. A delimited file is
  \<open>rectangular\<close> when it has a header and every record has as many fields as the header.
\<close>

definition sample_ragged :: string where
  "sample_ragged = ''value,age,name,note'' @ [CHR 0x0A] @ ''0,0,2,first'' @ [CHR 0x0A] @
     ''1,0,5'' @ [CHR 0x0A] @ ''0,1,3'' @ [CHR 0x0A] @ ''1,1,6'' @ [CHR 0x0A] @
     ''2,1,9'' @ [CHR 0x0A] @ ''1,2,9'' @ [CHR 0x0A]"

definition rectangular :: "string \<Rightarrow> bool" where
  "rectangular content =
     (case filter (\<lambda>l. l \<noteq> []) (split_on (CHR 0x0A) content) of
        [] \<Rightarrow> False
      | h # ls \<Rightarrow>
          list_all (\<lambda>l. length (split_on (CHR '','') l) = length (split_on (CHR '','') h)) ls)"

definition table_ragged :: "rat frame" where
  "table_ragged = \<lparr>columns = [''value'', ''age'', ''name'', ''note''],
     rws = [[Num 0, Num 0, Num 2, Str ''first''], [Num 1, Num 0, Num 5], [Num 0, Num 1, Num 3],
            [Num 1, Num 1, Num 6], [Num 2, Num 1, Num 9], [Num 1, Num 2, Num 9]]\<rparr>"

text \<open>A world with more in it: another file, an environment, arguments, earlier output.\<close>

definition elsewhere :: "string \<Rightarrow> world" where
  "elsewhere txt =
     \<lparr>files = [''sample.csv'' \<mapsto> txt, ''other.csv'' \<mapsto> ''age,name''],
      environ = [''DEGREE'' \<mapsto> ''3''], argv = [''train.py'', ''other.csv''],
      stdout = ''earlier output''\<rparr>"

text \<open>The values that the runs on the example files go through.\<close>

definition table_ok :: "rat frame" where
  "table_ok = \<lparr>columns = [''value'', ''age'', ''name''],
     rws = [[Num 0, Num 0, Num 2], [Num 1, Num 0, Num 5], [Num 0, Num 1, Num 3],
            [Num 1, Num 1, Num 6], [Num 2, Num 1, Num 9], [Num 1, Num 2, Num 9]]\<rparr>"

definition features_ok :: "rat frame" where
  "features_ok = \<lparr>columns = [''value'', ''age''],
     rws = [[Num 0, Num 0], [Num 1, Num 0], [Num 0, Num 1],
            [Num 1, Num 1], [Num 2, Num 1], [Num 1, Num 2]]\<rparr>"

definition target_ok :: "rat cell list" where
  "target_ok = [Num 2, Num 5, Num 3, Num 6, Num 9, Num 9]"

definition matrix_ok :: "rat list list" where
  "matrix_ok = [[1, 0, 0, 0, 0, 0], [1, 1, 0, 1, 0, 0], [1, 0, 1, 0, 0, 1],
                [1, 1, 1, 1, 1, 1], [1, 2, 1, 4, 2, 1], [1, 1, 2, 1, 2, 4]]"

definition model_ok :: "rat linear_model option" where
  "model_ok = Some \<lparr>lm_coef = [0, 3, 0, 0, 0, 1], lm_intercept = 2\<rparr>"

definition table_no_value :: "rat frame" where
  "table_no_value = \<lparr>columns = [''age'', ''name''], rws = [[Num 1, Num 3], [Num 2, Num 5]]\<rparr>"

definition table_wide :: "rat frame" where
  "table_wide = \<lparr>columns = [''value'', ''age'', ''name''],
     rws = [[Num 0, Num 0, Num 2000000000000000], [Num 1, Num 0, Num 5000000000000000],
            [Num 0, Num 1, Num 3000000000000000], [Num 1, Num 1, Num 6000000000000000],
            [Num 2, Num 1, Num 9000000000000000], [Num 1, Num 2, Num 9000000000000000]]\<rparr>"

definition target_wide :: "rat cell list" where
  "target_wide = [Num 2000000000000000, Num 5000000000000000, Num 3000000000000000,
                  Num 6000000000000000, Num 9000000000000000, Num 9000000000000000]"

definition model_wide :: "rat linear_model option" where
  "model_wide = Some \<lparr>lm_coef = [0, 3000000000000000, 0, 0, 0, 1000000000000000],
                       lm_intercept = 2000000000000000\<rparr>"

section \<open>How the module body executes\<close>

lemma bind_lib_call:
  "bind (lib_call c r) f s =
     (case r of Inl e \<Rightarrow> (Inl e, s\<lparr>calls := calls s @ [(c, Some e)]\<rparr>)
              | Inr x \<Rightarrow> f x (s\<lparr>calls := calls s @ [(c, None)]\<rparr>))"
  by (simp add: bind_def lib_call_def raised_def split: sum.splits)

lemma bind_read_csv:
  "bind (pd_read_csv L p) f s =
     (case read_csv L (files s p) of
        Inl e \<Rightarrow> (Inl e, s\<lparr>calls := calls s @ [(ReadCsv p, Some e)]\<rparr>)
      | Inr x \<Rightarrow> f x (s\<lparr>calls := calls s @ [(ReadCsv p, None)]\<rparr>))"
  by (simp add: bind_def lib_call_def pd_read_csv_def raised_def split: sum.splits)

lemma bind_print:
  "bind (print a b) f s =
     f () (s\<lparr>stdout := stdout s @ a @ '' '' @ b @ [CHR 0x0A],
            calls := calls s @ [(Print (a @ '' '' @ b), None)]\<rparr>)"
  by (simp add: bind_def print_def)

lemma print_apply:
  "print a b s =
     (Inr (), s\<lparr>stdout := stdout s @ a @ '' '' @ b @ [CHR 0x0A],
               calls := calls s @ [(Print (a @ '' '' @ b), None)]\<rparr>)"
  by (simp add: print_def)

lemmas exec = bind_lib_call bind_read_csv bind_print print_apply

lemma train_frame:
  "files (snd (train L s)) = files s \<and> environ (snd (train L s)) = environ s \<and>
   argv (snd (train L s)) = argv s"
  by (simp add: train_def exec split: sum.splits)

lemma train_stdout_prefix: "prefix (stdout s) (stdout (snd (train L s)))"
  by (simp add: train_def exec split: sum.splits)

lemma train_same_input:
  assumes "files s1 ''sample.csv'' = files s2 ''sample.csv''"
  shows "fst (train L s1) = fst (train L s2) \<and>
    drop (length (stdout s1)) (stdout (snd (train L s1))) =
      drop (length (stdout s2)) (stdout (snd (train L s2))) \<and>
    drop (length (calls s1)) (calls (snd (train L s1))) =
      drop (length (calls s2)) (calls (snd (train L s2)))"
  by (simp add: train_def exec assms split: sum.splits)

lemma train_steps:
  "prefix (map (\<lambda>cr. step_of (fst cr)) (calls (snd (train L s))))
          (map (\<lambda>cr. step_of (fst cr)) (calls s) @ program_steps) \<and>
   (fst (train L s) = Inr () \<longleftrightarrow>
      map (\<lambda>cr. step_of (fst cr)) (calls (snd (train L s))) =
      map (\<lambda>cr. step_of (fst cr)) (calls s) @ program_steps)"
  by (simp add: train_def exec program_steps_def split: sum.splits)


lemma start_simps:
  "files (start w) = files w" "environ (start w) = environ w" "argv (start w) = argv w"
  "stdout (start w) = stdout w" "calls (start w) = []"
  by (simp_all add: start_def)

lemma train_success:
  assumes "fst (train L s) = Inr u"
  shows "\<exists>data X y Xp m yp c i.
     read_csv L (files s ''sample.csv'') = Inr data \<and>
     getitem_list L data [''value'', ''age''] = Inr X \<and>
     getitem L data ''name'' = Inr y \<and>
     fit_transform L (PolynomialFeatures L 2) X = Inr Xp \<and>
     fit L (LinearRegression L) Xp y = Inr m \<and>
     predict L m Xp = Inr yp \<and>
     coef L m = Inr c \<and>
     intercept L m = Inr i \<and>
     snd (train L s) =
       s\<lparr>stdout := stdout s @ ''Coefficients: '' @ str_vec L c @ [CHR 0x0A] @
                               ''Intercept: '' @ str_num L i @ [CHR 0x0A],
         calls := calls s @
           [(ReadCsv ''sample.csv'', None), (GetItemList data [''value'', ''age''], None),
            (GetItem data ''name'', None), (NewPolynomialFeatures 2, None),
            (FitTransform (PolynomialFeatures L 2) X, None), (NewLinearRegression, None),
            (Fit (LinearRegression L) Xp y, None), (Predict m Xp, None), (GetCoef m, None),
            (Print (''Coefficients: '' @ str_vec L c), None), (GetIntercept m, None),
            (Print (''Intercept: '' @ str_num L i), None)]\<rparr>"
  using assms
  by (simp add: train_def exec split: sum.split_asm)

lemma train_log_outcomes:
  assumes "\<forall>cr \<in> set (calls s). snd cr = library_raises L w (fst cr)"
    and "files s = files w"
  shows "\<forall>cr \<in> set (calls (snd (train L s))). snd cr = library_raises L w (fst cr)"
  using assms
  by (simp add: train_def exec raised_def split: sum.splits)

lemma train_abort_last:
  "calls (snd (train L s)) \<noteq> [] \<and>
   (fst (train L s) = Inl e \<longleftrightarrow> snd (last (calls (snd (train L s)))) = Some e)"
  by (simp add: train_def exec split: sum.splits)

lemma train_abort_only_last:
  assumes "calls s = []"
  shows "\<forall>cr \<in> set (butlast (calls (snd (train L s)))). snd cr = None"
  using assms
  by (simp add: train_def exec split: sum.splits)

lemma train_fit_call:
  assumes "(Fit m0 Xp y, r) \<in> set (calls (snd (train L s)))" and "calls s = []"
  shows "\<exists>data X. read_csv L (files s ''sample.csv'') = Inr data \<and>
     getitem_list L data [''value'', ''age''] = Inr X \<and>
     getitem L data ''name'' = Inr y \<and>
     fit_transform L (PolynomialFeatures L 2) X = Inr Xp \<and>
     m0 = LinearRegression L \<and> r = raised (fit L m0 Xp y)"
  using assms
  by (simp add: train_def exec raised_def split: sum.split_asm)

lemma train_reads:
  assumes "calls s = []"
  shows "map fst (filter (\<lambda>cr. is_read (fst cr)) (calls (snd (train L s)))) = [ReadCsv ''sample.csv'']"
  using assms
  by (simp add: train_def exec split: sum.splits)

lemma train_without_predict_aux:
  assumes "calls s = []"
  shows "(\<exists>cr \<in> set (calls (snd (train L s))). is_predict (fst cr) \<and> snd cr \<noteq> None) \<or>
     (fst (train_without_predict L s) = fst (train L s) \<and>
      stdout (snd (train_without_predict L s)) = stdout (snd (train L s)) \<and>
      calls (snd (train_without_predict L s)) =
        filter (\<lambda>cr. \<not> is_predict (fst cr)) (calls (snd (train L s))))"
  by (simp add: train_def train_without_predict_def exec assms split: sum.splits)

lemma train_without_predict_eq:
  assumes "\<forall>cr \<in> set (calls (snd (train L s))). is_predict (fst cr) \<longrightarrow> snd cr = None"
    and "calls s = []"
  shows "fst (train_without_predict L s) = fst (train L s) \<and>
         stdout (snd (train_without_predict L s)) = stdout (snd (train L s)) \<and>
         calls (snd (train_without_predict L s)) =
           filter (\<lambda>cr. \<not> is_predict (fst cr)) (calls (snd (train L s)))"
proof -
  from train_without_predict_aux [OF assms(2), of L] show ?thesis
  proof
    assume "\<exists>cr \<in> set (calls (snd (train L s))). is_predict (fst cr) \<and> snd cr \<noteq> None"
    then obtain cr where cr: "cr \<in> set (calls (snd (train L s)))"
      and bad: "is_predict (fst cr) \<and> snd cr \<noteq> None" ..
    from assms(1) cr have "is_predict (fst cr) \<longrightarrow> snd cr = None" by (rule bspec)
    with bad have False by simp
    then show ?thesis ..
  next
    assume "fst (train_without_predict L s) = fst (train L s) \<and>
      stdout (snd (train_without_predict L s)) = stdout (snd (train L s)) \<and>
      calls (snd (train_without_predict L s)) =
        filter (\<lambda>cr. \<not> is_predict (fst cr)) (calls (snd (train L s)))"
    then show ?thesis .
  qed
qed



lemma train_fit_reached:
  assumes "read_csv L (files s ''sample.csv'') = Inr data"
    and "getitem_list L data [''value'', ''age''] = Inr X"
    and "getitem L data ''name'' = Inr y"
    and "fit_transform L (PolynomialFeatures L 2) X = Inr Xp"
  shows "(Fit (LinearRegression L) Xp y, raised (fit L (LinearRegression L) Xp y))
           \<in> set (calls (snd (train L s)))"
  by (simp add: train_def exec assms raised_def split: sum.splits)

lemma train_head_call:
  assumes "calls s = []"
  shows "hd (calls (snd (train L s))) =
           (ReadCsv ''sample.csv'', raised (read_csv L (files s ''sample.csv'')))"
  by (simp add: train_def exec assms raised_def split: sum.splits)

lemma run_same_input:
  assumes "files w1 ''sample.csv'' = files w2 ''sample.csv''"
  shows "fst (run L w1) = fst (run L w2) \<and> printed L w1 = printed L w2 \<and>
         calls (snd (run L w1)) = calls (snd (run L w2))"
proof -
  have "files (start w1) ''sample.csv'' = files (start w2) ''sample.csv''"
    using assms by (simp add: start_simps)
  from train_same_input [OF this, of L] show ?thesis
    by (simp add: run_def printed_def start_simps)
qed

lemma train_calls_linear:
  assumes f: "files s ''sample.csv'' = files w ''sample.csv''"
  shows "calls (snd (train L s)) = calls s @ until_raise (linear_sequence L w) \<and>
         stdout (snd (train L s)) = stdout s @ written (until_raise (linear_sequence L w))"
proof -
  note sq = train_def exec linear_sequence_def raised_def Let_def f
  show ?thesis
  proof (cases "read_csv L (files w ''sample.csv'')")
    case r0: (Inl e)
    then show ?thesis
      by (simp add: sq )
  next
    case r0: (Inr data)
    show ?thesis
    proof (cases "getitem_list L data [''value'', ''age'']")
      case r1: (Inl e)
      then show ?thesis
        by (simp add: sq r0)
    next
      case r1: (Inr X)
      show ?thesis
      proof (cases "getitem L data ''name''")
        case r2: (Inl e)
        then show ?thesis
          by (simp add: sq r0 r1)
      next
        case r2: (Inr y)
        show ?thesis
        proof (cases "fit_transform L (PolynomialFeatures L 2) X")
          case r3: (Inl e)
          then show ?thesis
            by (simp add: sq r0 r1 r2)
        next
          case r3: (Inr Xp)
          show ?thesis
          proof (cases "fit L (LinearRegression L) Xp y")
            case r4: (Inl e)
            then show ?thesis
              by (simp add: sq r0 r1 r2 r3)
          next
            case r4: (Inr m)
            show ?thesis
            proof (cases "predict L m Xp")
              case r5: (Inl e)
              then show ?thesis
                by (simp add: sq r0 r1 r2 r3 r4)
            next
              case r5: (Inr yp)
              show ?thesis
              proof (cases "coef L m")
                case r6: (Inl e)
                then show ?thesis
                  by (simp add: sq r0 r1 r2 r3 r4 r5)
              next
                case r6: (Inr c)
                show ?thesis
                proof (cases "intercept L m")
                  case r7: (Inl e)
                  then show ?thesis
                    by (simp add: sq r0 r1 r2 r3 r4 r5 r6)
                next
                  case r7: (Inr i)
                  show ?thesis
                    by (simp add: sq r0 r1 r2 r3 r4 r5 r6 r7)
                qed
              qed
            qed
          qed
        qed
      qed
    qed
  qed
qed

lemma linear_sequence_steps: "map (\<lambda>cr. step_of (fst cr)) (linear_sequence L w) = program_steps"
  by (simp add: linear_sequence_def program_steps_def Let_def)

section \<open>The claims about the script, for every library\<close>

text \<open>
  C1 (as amended). The library calls of a run, with their arguments, are the linear
  sequence of the script up to and including the first call that raises, and what the run
  prints is what the print calls among them write. So a run on which no call raises makes
  exactly the twelve calls, in the order load, expand, fit, predict, print; any other run
  makes an initial part of them, ends at the call that raised and has that error as its
  result. The data has no other influence on which calls are made.
\<close>

theorem train_linear_sequence:
  "calls (snd (run L w)) = until_raise (linear_sequence L w) \<and>
   printed L w = written (until_raise (linear_sequence L w)) \<and>
   map (\<lambda>cr. step_of (fst cr)) (linear_sequence L w) = program_steps \<and>
   remdups_adj program_steps = [Load, Transform, FitModel, PredictModel, Output] \<and>
   prefix (steps L w) program_steps \<and>
   (fst (run L w) = Inr () \<longleftrightarrow> steps L w = program_steps) \<and>
   (\<forall>cr \<in> set (butlast (calls (snd (run L w)))). snd cr = None) \<and>
   (fst (run L w) = Inl e \<longleftrightarrow> snd (last (calls (snd (run L w)))) = Some e)"
proof -
  have f: "files (start w) ''sample.csv'' = files w ''sample.csv''"
    by (simp add: start_simps)
  from train_calls_linear [OF f, of L]
  have a: "calls (snd (run L w)) = until_raise (linear_sequence L w)"
    and b: "printed L w = written (until_raise (linear_sequence L w))"
    by (simp_all add: run_def printed_def start_simps)
  have c: "map (\<lambda>cr. step_of (fst cr)) (linear_sequence L w) = program_steps"
    by (rule linear_sequence_steps)
  have d: "remdups_adj program_steps = [Load, Transform, FitModel, PredictModel, Output]"
    by (simp add: program_steps_def)
  from train_steps [of L "start w"]
  have g: "prefix (steps L w) program_steps"
    and h: "fst (run L w) = Inr () \<longleftrightarrow> steps L w = program_steps"
    by (simp_all add: steps_def run_def start_simps)
  have i: "\<forall>cr \<in> set (butlast (calls (snd (run L w)))). snd cr = None"
    unfolding run_def by (rule train_abort_only_last) (simp add: start_simps)
  from train_abort_last [of L "start w" e]
  have j: "fst (run L w) = Inl e \<longleftrightarrow> snd (last (calls (snd (run L w)))) = Some e"
    by (simp add: run_def)
  from a b c d g h i j show ?thesis by (intro conjI)
qed

text \<open>
  C2 (as amended). A run that does not abort adds exactly two print records to standard
  output and nothing else: \<open>Coefficients:\<close>, a space, the rendering of the fitted
  coefficients and a newline, then \<open>Intercept:\<close>, a space, the rendering of the fitted
  intercept and a newline. The number of lines of that text is two plus the line breaks
  inside the two renderings.
\<close>

theorem train_prints_two_records:
  assumes "fst (run L w) = Inr ()"
  shows "\<exists>Xp y m c i.
     (Fit (LinearRegression L) Xp y, None) \<in> set (calls (snd (run L w))) \<and>
     fit L (LinearRegression L) Xp y = Inr m \<and> coef L m = Inr c \<and> intercept L m = Inr i \<and>
     printed L w = ''Coefficients: '' @ str_vec L c @ [CHR 0x0A] @
                   ''Intercept: '' @ str_num L i @ [CHR 0x0A] \<and>
     line_count (printed L w) = 2 + line_count (str_vec L c) + line_count (str_num L i)"
  using assms
  by (simp add: run_def printed_def line_count_def train_def exec start_simps
        split: sum.split_asm)

text \<open>
  C3. The regression that a run performs is the fit of the column \<open>name\<close> of the loaded
  table against the degree-2 polynomial expansion of its columns \<open>value\<close> and \<open>age\<close>: a
  \<open>fit\<close> call is made exactly with those arguments, on a fresh \<open>LinearRegression\<close>, and it
  is made whenever loading, selecting and expanding succeed.
\<close>

theorem train_fit_arguments:
  "(Fit m0 Xp y, r) \<in> set (calls (snd (run L w))) \<longleftrightarrow>
   (\<exists>data X. read_csv L (files w ''sample.csv'') = Inr data \<and>
      getitem_list L data [''value'', ''age''] = Inr X \<and>
      getitem L data ''name'' = Inr y \<and>
      fit_transform L (PolynomialFeatures L 2) X = Inr Xp \<and>
      m0 = LinearRegression L \<and> r = raised (fit L m0 Xp y))"
proof
  assume "(Fit m0 Xp y, r) \<in> set (calls (snd (run L w)))"
  then have "(Fit m0 Xp y, r) \<in> set (calls (snd (train L (start w))))"
    by (simp add: run_def)
  from train_fit_call [OF this] show
    "\<exists>data X. read_csv L (files w ''sample.csv'') = Inr data \<and>
      getitem_list L data [''value'', ''age''] = Inr X \<and>
      getitem L data ''name'' = Inr y \<and>
      fit_transform L (PolynomialFeatures L 2) X = Inr Xp \<and>
      m0 = LinearRegression L \<and> r = raised (fit L m0 Xp y)"
    by (simp add: start_simps)
next
  assume "\<exists>data X. read_csv L (files w ''sample.csv'') = Inr data \<and>
      getitem_list L data [''value'', ''age''] = Inr X \<and>
      getitem L data ''name'' = Inr y \<and>
      fit_transform L (PolynomialFeatures L 2) X = Inr Xp \<and>
      m0 = LinearRegression L \<and> r = raised (fit L m0 Xp y)"
  then obtain data X where a: "read_csv L (files w ''sample.csv'') = Inr data"
    and b: "getitem_list L data [''value'', ''age''] = Inr X"
    and c: "getitem L data ''name'' = Inr y"
    and d: "fit_transform L (PolynomialFeatures L 2) X = Inr Xp"
    and e: "m0 = LinearRegression L" "r = raised (fit L m0 Xp y)"
    by (elim exE conjE) (rule that)
  from train_fit_reached [of L "start w" data X y Xp] a b c d e
  show "(Fit m0 Xp y, r) \<in> set (calls (snd (run L w)))"
    by (simp add: run_def start_simps)
qed

text \<open>
  C7. A run changes nothing but standard output, which it only extends: the files, the
  environment and the command line are after the run what they were before it, and
  neither the environment nor the command line has any influence on the run.
\<close>

theorem train_only_writes_stdout:
  "files (snd (run L w)) = files w \<and> environ (snd (run L w)) = environ w \<and>
   argv (snd (run L w)) = argv w \<and> prefix (stdout w) (stdout (snd (run L w))) \<and>
   fst (run L (w\<lparr>environ := ev, argv := av\<rparr>)) = fst (run L w) \<and>
   printed L (w\<lparr>environ := ev, argv := av\<rparr>) = printed L w \<and>
   calls (snd (run L (w\<lparr>environ := ev, argv := av\<rparr>))) = calls (snd (run L w))"
proof -
  have "files (w\<lparr>environ := ev, argv := av\<rparr>) ''sample.csv'' = files w ''sample.csv''"
    by simp
  from run_same_input [OF this, of L] train_frame [of L "start w"]
    train_stdout_prefix [of "start w" L]
  show ?thesis by (simp add: run_def start_simps)
qed

text \<open>
  C8. The prediction is computed and never used: unless the \<open>predict\<close> call itself raises,
  the script without that call gives the same result, the same standard output and the
  same other library calls as the script.
\<close>

theorem predict_result_unused:
  assumes "\<forall>cr \<in> set (calls (snd (run L w))). is_predict (fst cr) \<longrightarrow> snd cr = None"
  shows "fst (run_without_predict L w) = fst (run L w) \<and>
         stdout (snd (run_without_predict L w)) = stdout (snd (run L w)) \<and>
         calls (snd (run_without_predict L w)) =
           filter (\<lambda>cr. \<not> is_predict (fst cr)) (calls (snd (run L w)))"
proof -
  have "\<forall>cr \<in> set (calls (snd (train L (start w)))). is_predict (fst cr) \<longrightarrow> snd cr = None"
    using assms by (simp add: run_def)
  moreover have "calls (start w) = []" by (simp add: start_simps)
  ultimately show ?thesis
    unfolding run_def run_without_predict_def by (rule train_without_predict_eq)
qed

text \<open>
  C10. The path of the input is the constant \<open>sample.csv\<close>, relative to the working
  directory: in every world the first call of a run reads the file of that path, no other
  call reads a file, and a change to any other file leaves the run as it is.
\<close>

theorem input_path_hard_coded:
  "map fst (filter (\<lambda>cr. is_read (fst cr)) (calls (snd (run L w)))) = [ReadCsv ''sample.csv''] \<and>
   hd (calls (snd (run L w))) =
     (ReadCsv ''sample.csv'', raised (read_csv L (files w ''sample.csv''))) \<and>
   (p \<noteq> ''sample.csv'' \<longrightarrow>
      fst (run L (w\<lparr>files := (files w)(p := c)\<rparr>)) = fst (run L w) \<and>
      printed L (w\<lparr>files := (files w)(p := c)\<rparr>) = printed L w)"
proof -
  have e: "calls (start w) = []" by (simp add: start_simps)
  have "p \<noteq> ''sample.csv'' \<Longrightarrow>
      files (w\<lparr>files := (files w)(p := c)\<rparr>) ''sample.csv'' = files w ''sample.csv''"
    by simp
  from run_same_input [OF this, of L] train_reads [OF e, of L] train_head_call [OF e, of L]
  show ?thesis by (simp add: run_def start_simps)
qed


section \<open>The claims about the library as specified\<close>

lemma those_map_Some:
  "those (map f xs) = Some ys \<Longrightarrow>
     length ys = length xs \<and> (\<forall>k < length xs. f (xs ! k) = Some (ys ! k))"
proof (induction xs arbitrary: ys)
  case Nil
  then show ?case by simp
next
  case (Cons x xs)
  from Cons.prems obtain z zs where z: "f x = Some z" and zs: "those (map f xs) = Some zs"
    and ys: "ys = z # zs"
    by (auto split: option.splits)
  from Cons.IH [OF zs] have "length zs = length xs"
    and "\<forall>k < length xs. f (xs ! k) = Some (zs ! k)" by simp_all
  with z ys show ?case by (auto simp add: nth_Cons split: nat.splits)
qed

lemma numbers_pair:
  "numbers [p, q] = Some row \<Longrightarrow> \<exists>v a. p = Num v \<and> q = Num a \<and> row = [v, a]"
  by (cases p; cases q) (auto simp add: numbers_def)

lemma polynomial_features_2:
  "polynomial_features 2 [v, a] = [1, v, a, v * v, v * a, a * a]"
  by (simp add: polynomial_features_def numeral_2_eq_2)

lemma spec_expand_rows:
  assumes "spec_getitem_list df [''value'', ''age''] = Inr X"
    and "spec_fit_transform 2 X = Inr Xp"
  shows "length Xp = length (rws df) \<and>
    (\<forall>k < length (rws df). \<exists>v a.
       cell_at df (rws df ! k) ''value'' = Num v \<and> cell_at df (rws df ! k) ''age'' = Num a \<and>
       Xp ! k = [1, v, a, v * v, v * a, a * a])"
proof -
  from assms(1) have X: "rws X = map (\<lambda>r. [cell_at df r ''value'', cell_at df r ''age'']) (rws df)"
    by (auto simp add: spec_getitem_list_def split: list.splits)
  from assms(2) obtain M where M: "those (map numbers (rws X)) = Some M"
    and Xp: "Xp = map (polynomial_features 2) M"
    by (auto simp add: spec_fit_transform_def split: option.splits)
  from those_map_Some [OF M] have len: "length M = length (rws X)"
    and num: "\<forall>k < length (rws X). numbers (rws X ! k) = Some (M ! k)" by simp_all
  have l: "length Xp = length (rws df)" using len X Xp by simp
  have "\<exists>v a. cell_at df (rws df ! k) ''value'' = Num v \<and>
          cell_at df (rws df ! k) ''age'' = Num a \<and> Xp ! k = [1, v, a, v * v, v * a, a * a]"
    if k: "k < length (rws df)" for k
  proof -
    from k X have "rws X ! k = [cell_at df (rws df ! k) ''value'', cell_at df (rws df ! k) ''age'']"
      by simp
    moreover from k X num have "numbers (rws X ! k) = Some (M ! k)" by simp
    ultimately have "numbers [cell_at df (rws df ! k) ''value'', cell_at df (rws df ! k) ''age'']
        = Some (M ! k)" by simp
    from numbers_pair [OF this] obtain v a where
      "cell_at df (rws df ! k) ''value'' = Num v" "cell_at df (rws df ! k) ''age'' = Num a"
      "M ! k = [v, a]" by (elim exE conjE) (rule that)
    moreover from k len X Xp have "Xp ! k = polynomial_features 2 (M ! k)" by simp
    ultimately show ?thesis by (simp add: polynomial_features_2)
  qed
  with l show ?thesis by simp
qed


lemma spec_fit_call:
  assumes "(Fit m0 Xp y, r) \<in> set (calls (snd (run (spec_lib B) w)))"
  shows "\<exists>content df X. files w ''sample.csv'' = Some content \<and> parse_csv B content = Inr df \<and>
     spec_getitem_list df [''value'', ''age''] = Inr X \<and> spec_getitem df ''name'' = Inr y \<and>
     spec_fit_transform 2 X = Inr Xp \<and> m0 = None \<and> r = raised (spec_fit B None Xp y)"
proof -
  have "(Fit m0 Xp y, r) \<in> set (calls (snd (train (spec_lib B) (start w))))"
    using assms by (simp add: run_def)
  from train_fit_call [OF this] show ?thesis
    by (auto simp add: start_simps spec_lib_def spec_read_csv_def split: option.splits)
qed



text \<open>
  C6. With the expansion as the specification describes it, the matrix that is passed to
  the fit has one row for every row of the loaded table, and the row is the list of all
  products of at most two of the features \<open>value\<close> and \<open>age\<close> of that table row: the constant,
  \<open>value\<close>, \<open>age\<close>, \<open>value\<^sup>2\<close>, \<open>value \<sqdot> age\<close>, \<open>age\<^sup>2\<close>.
\<close>

theorem fit_matrix_is_degree_2_expansion:
  assumes "files w ''sample.csv'' = Some content" and "parse_csv B content = Inr df"
    and "(Fit m0 Xp y, r) \<in> set (calls (snd (run (spec_lib B) w)))"
    and "k < length (rws df)"
  shows "length Xp = length (rws df) \<and>
    (\<exists>v a. cell_at df (rws df ! k) ''value'' = Num v \<and>
            cell_at df (rws df ! k) ''age'' = Num a \<and>
            Xp ! k = [1, v, a, v * v, v * a, a * a])"
proof -
  from spec_fit_call [OF assms(3)] assms(1,2) obtain X where
    "spec_getitem_list df [''value'', ''age''] = Inr X" "spec_fit_transform 2 X = Inr Xp"
    by auto
  from spec_expand_rows [OF this] assms(4) show ?thesis by simp
qed


lemma those_map_None:
  "those (map f xs) = None \<longleftrightarrow> (\<exists>x \<in> set xs. f x = None)"
  by (induction xs) (auto split: option.splits)

lemma spec_unreadable_aborts:
  "(files w ''sample.csv'' = None \<longrightarrow>
      fst (run (spec_lib B) w) = Inl FileNotFoundError \<and> printed (spec_lib B) w = []) \<and>
   (files w ''sample.csv'' = Some content \<and> parse_csv B content = Inl e' \<longrightarrow>
      fst (run (spec_lib B) w) = Inl e' \<and> printed (spec_lib B) w = [])"
  by (simp add: run_def printed_def train_def exec start_simps spec_lib_def spec_read_csv_def)

lemma spec_missing_column:
  assumes "files w ''sample.csv'' = Some content" and "parse_csv B content = Inr df"
    and "''value'' \<notin> set (columns df) \<or> ''age'' \<notin> set (columns df) \<or>
         ''name'' \<notin> set (columns df)"
  shows "\<exists>ns. fst (run (spec_lib B) w) = Inl (KeyError ns) \<and> ns \<noteq> [] \<and>
           set ns \<inter> set (columns df) = {} \<and> printed (spec_lib B) w = []"
  using assms(3)
  by (auto simp add: run_def printed_def train_def exec start_simps spec_lib_def
        spec_read_csv_def spec_getitem_list_def spec_getitem_def assms(1,2))

lemma spec_not_numeric:
  assumes f: "files w ''sample.csv'' = Some content" and p: "parse_csv B content = Inr df"
    and c: "''value'' \<in> set (columns df)" "''age'' \<in> set (columns df)"
           "''name'' \<in> set (columns df)"
    and r: "r \<in> set (rws df)"
    and n: "number (cell_at df r ''value'') = None \<or> number (cell_at df r ''age'') = None \<or>
            number (cell_at df r ''name'') = None"
  shows "\<exists>msg. fst (run (spec_lib B) w) = Inl (ValueError msg) \<and> printed (spec_lib B) w = []"
proof -
  let ?X = "\<lparr>columns = [''value'', ''age''],
              rws = map (\<lambda>r. map (cell_at df r) [''value'', ''age'']) (rws df)\<rparr>"
  have x: "spec_getitem_list df [''value'', ''age''] = Inr ?X"
    using c by (simp add: spec_getitem_list_def)
  have y: "spec_getitem df ''name'' = Inr (map (\<lambda>r. cell_at df r ''name'') (rws df))"
    using c by (simp add: spec_getitem_def)
  note ev = run_def printed_def train_def exec start_simps spec_lib_def spec_read_csv_def f p x y
  show ?thesis
  proof (cases "spec_fit_transform 2 ?X")
    case (Inl e)
    then obtain msg where "e = ValueError msg"
      by (auto simp add: spec_fit_transform_def split: option.splits)
    with Inl show ?thesis by (simp add: ev)
  next
    case (Inr Xp)
    then have "those (map numbers (rws ?X)) \<noteq> None"
      by (auto simp add: spec_fit_transform_def split: option.splits)
    then have "\<forall>q \<in> set (rws ?X). numbers q \<noteq> None"
      by (simp add: those_map_None)
    with r have "numbers [cell_at df r ''value'', cell_at df r ''age''] \<noteq> None"
      by auto
    then have "number (cell_at df r ''value'') \<noteq> None \<and> number (cell_at df r ''age'') \<noteq> None"
      by (auto simp add: numbers_def split: option.splits)
    with n have "number (cell_at df r ''name'') = None" by simp
    with r have "\<exists>q \<in> set (map (\<lambda>r. cell_at df r ''name'') (rws df)). number q = None"
      by auto
    then have "numbers (map (\<lambda>r. cell_at df r ''name'') (rws df)) = None"
      unfolding numbers_def those_map_None .
    then obtain msg where
      "spec_fit B None Xp (map (\<lambda>r. cell_at df r ''name'') (rws df)) = Inl (ValueError msg)"
      by (simp add: spec_fit_def)
    with Inr show ?thesis by (simp add: ev)
  qed
qed

text \<open>
  C5 (as amended). The script has no validation and no error handling of its own: a run
  aborts exactly when a library call raises, with that very error; the outcome logged for
  each call is what the library does on the arguments of the call; and no call is made
  after one that raised. With the library as the specification describes it, a file that
  is not there, a file that the reader rejects, a table without one of the columns
  \<open>value\<close>, \<open>age\<close> and \<open>name\<close>, and a field in one of them that is not a number each abort the
  run with the library's error before anything is printed.
\<close>

theorem train_no_error_handling:
  fixes B :: "'a::comm_semiring_1 backend"
  shows "calls (snd (run L w)) \<noteq> [] \<and>
   (\<forall>cr \<in> set (calls (snd (run L w))). snd cr = library_raises L w (fst cr)) \<and>
   (\<forall>cr \<in> set (butlast (calls (snd (run L w)))). snd cr = None) \<and>
   (fst (run L w) = Inl e \<longleftrightarrow> snd (last (calls (snd (run L w)))) = Some e) \<and>
   (files w ''sample.csv'' = None \<longrightarrow>
      fst (run (spec_lib B) w) = Inl FileNotFoundError \<and> printed (spec_lib B) w = []) \<and>
   (files w ''sample.csv'' = Some content \<and> parse_csv B content = Inl e' \<longrightarrow>
      fst (run (spec_lib B) w) = Inl e' \<and> printed (spec_lib B) w = []) \<and>
   (files w ''sample.csv'' = Some content \<and> parse_csv B content = Inr df \<and>
    (''value'' \<notin> set (columns df) \<or> ''age'' \<notin> set (columns df) \<or>
     ''name'' \<notin> set (columns df)) \<longrightarrow>
      (\<exists>ns. fst (run (spec_lib B) w) = Inl (KeyError ns) \<and> ns \<noteq> [] \<and>
            set ns \<inter> set (columns df) = {} \<and> printed (spec_lib B) w = [])) \<and>
   (files w ''sample.csv'' = Some content \<and> parse_csv B content = Inr df \<and>
    ''value'' \<in> set (columns df) \<and> ''age'' \<in> set (columns df) \<and>
    ''name'' \<in> set (columns df) \<and> r \<in> set (rws df) \<and>
    (number (cell_at df r ''value'') = None \<or> number (cell_at df r ''age'') = None \<or>
     number (cell_at df r ''name'') = None) \<longrightarrow>
      (\<exists>msg. fst (run (spec_lib B) w) = Inl (ValueError msg) \<and> printed (spec_lib B) w = []))"
proof -
  have a: "calls (snd (run L w)) \<noteq> []"
    and d: "fst (run L w) = Inl e \<longleftrightarrow> snd (last (calls (snd (run L w)))) = Some e"
    using train_abort_last [of L "start w" e] by (simp_all add: run_def)
  have "\<forall>cr \<in> set (calls (start w)). snd cr = library_raises L w (fst cr)"
    by (simp add: start_simps)
  moreover have "files (start w) = files w" by (simp add: start_simps)
  ultimately
  have "\<forall>cr \<in> set (calls (snd (train L (start w)))). snd cr = library_raises L w (fst cr)"
    by (rule train_log_outcomes)
  then have b: "\<forall>cr \<in> set (calls (snd (run L w))). snd cr = library_raises L w (fst cr)"
    by (simp add: run_def)
  have c: "\<forall>cr \<in> set (butlast (calls (snd (run L w)))). snd cr = None"
    unfolding run_def by (rule train_abort_only_last) (simp add: start_simps)
  from spec_unreadable_aborts [of w B content e']
  have f: "files w ''sample.csv'' = None \<longrightarrow>
      fst (run (spec_lib B) w) = Inl FileNotFoundError \<and> printed (spec_lib B) w = []"
    and g: "files w ''sample.csv'' = Some content \<and> parse_csv B content = Inl e' \<longrightarrow>
      fst (run (spec_lib B) w) = Inl e' \<and> printed (spec_lib B) w = []"
    by simp_all
  have h: "files w ''sample.csv'' = Some content \<and> parse_csv B content = Inr df \<and>
    (''value'' \<notin> set (columns df) \<or> ''age'' \<notin> set (columns df) \<or>
     ''name'' \<notin> set (columns df)) \<longrightarrow>
      (\<exists>ns. fst (run (spec_lib B) w) = Inl (KeyError ns) \<and> ns \<noteq> [] \<and>
            set ns \<inter> set (columns df) = {} \<and> printed (spec_lib B) w = [])"
    using spec_missing_column [of w content B df] by simp
  have i: "files w ''sample.csv'' = Some content \<and> parse_csv B content = Inr df \<and>
    ''value'' \<in> set (columns df) \<and> ''age'' \<in> set (columns df) \<and>
    ''name'' \<in> set (columns df) \<and> r \<in> set (rws df) \<and>
    (number (cell_at df r ''value'') = None \<or> number (cell_at df r ''age'') = None \<or>
     number (cell_at df r ''name'') = None) \<longrightarrow>
      (\<exists>msg. fst (run (spec_lib B) w) = Inl (ValueError msg) \<and> printed (spec_lib B) w = [])"
    using spec_not_numeric [of w content B df r] by simp
  from a b c d f g h i show ?thesis by (intro conjI)
qed

section \<open>The runs on the example files\<close>

lemma files_in_cwd: "files (in_cwd t) ''sample.csv'' = Some t"
  by (simp add: in_cwd_def)

lemma files_elsewhere: "files (elsewhere t) ''sample.csv'' = Some t"
  by (simp add: elsewhere_def)

lemmas solver_defs = demo_lstsq_def columns_of_def centred_def mean_def dot_def
  normal_equations_def varies_def scaled_def reduced_def

lemmas show_defs = demo_show_vec_def show_rat_def show_int_def pad_left_def

lemma ok_read: "read_csv demo_lib (Some sample_ok) = Inr table_ok"
  unfolding table_ok_def by code_simp

lemma ok_features: "getitem_list demo_lib table_ok [''value'', ''age''] = Inr features_ok"
  unfolding table_ok_def features_ok_def by code_simp

lemma ok_target: "getitem demo_lib table_ok ''name'' = Inr target_ok"
  unfolding table_ok_def target_ok_def by code_simp

lemma ok_expand:
  "fit_transform demo_lib (PolynomialFeatures demo_lib 2) features_ok = Inr matrix_ok"
  unfolding matrix_ok_def features_ok_def by code_simp

lemma ok_lstsq: "demo_lstsq matrix_ok [2, 5, 3, 6, 9, 9] = Inr ([0, 3, 0, 0, 0, 1], 2)"
  by (simp add: matrix_ok_def solver_defs)

lemma ok_fit: "fit demo_lib (LinearRegression demo_lib) matrix_ok target_ok = Inr model_ok"
  by (simp add: demo_lib_def spec_lib_def spec_fit_def demo_backend_def numbers_def
        target_ok_def model_ok_def ok_lstsq)

lemma ok_predict: "predict demo_lib model_ok matrix_ok = Inr [2, 5, 3, 6, 9, 9]"
  by (simp add: demo_lib_def spec_lib_def spec_predict_def model_ok_def matrix_ok_def
        linear_predict_def)

lemma ok_coef: "coef demo_lib model_ok = Inr [0, 3, 0, 0, 0, 1]"
  by (simp add: demo_lib_def spec_lib_def spec_coef_def model_ok_def)

lemma ok_intercept: "intercept demo_lib model_ok = Inr 2"
  by (simp add: demo_lib_def spec_lib_def spec_intercept_def model_ok_def)

lemma ok_str_vec: "str_vec demo_lib [0, 3, 0, 0, 0, 1] = ''[0 3 0 0 0 1]''"
  by (simp add: demo_lib_def spec_lib_def demo_backend_def show_defs)

lemma ok_str_num: "str_num demo_lib 2 = ''2''"
  by (simp add: demo_lib_def spec_lib_def demo_backend_def show_defs)

lemmas ok_facts = files_in_cwd files_elsewhere ok_read ok_features ok_target ok_expand ok_fit
  ok_predict ok_coef ok_intercept ok_str_vec ok_str_num

lemma demo_ok_result: "fst (run demo_lib (in_cwd sample_ok)) = Inr ()"
  by (simp add: run_def train_def exec start_simps ok_facts)

lemma demo_ok_printed:
  "printed demo_lib (in_cwd sample_ok) =
     ''Coefficients: [0 3 0 0 0 1]'' @ [CHR 0x0A] @ ''Intercept: 2'' @ [CHR 0x0A]"
  by (simp add: printed_def run_def train_def exec start_simps ok_facts in_cwd_def)

lemma demo_ok_calls:
  "calls (snd (run demo_lib (in_cwd sample_ok))) =
     [(ReadCsv ''sample.csv'', None), (GetItemList table_ok [''value'', ''age''], None),
      (GetItem table_ok ''name'', None), (NewPolynomialFeatures 2, None),
      (FitTransform (PolynomialFeatures demo_lib 2) features_ok, None),
      (NewLinearRegression, None),
      (Fit (LinearRegression demo_lib) matrix_ok target_ok, None),
      (Predict model_ok matrix_ok, None), (GetCoef model_ok, None),
      (Print ''Coefficients: [0 3 0 0 0 1]'', None), (GetIntercept model_ok, None),
      (Print ''Intercept: 2'', None)]"
  by (simp add: run_def train_def exec start_simps ok_facts)

lemma no_value_read: "read_csv demo_lib (Some sample_no_value) = Inr table_no_value"
  unfolding table_no_value_def by code_simp

lemma no_value_features:
  "getitem_list demo_lib table_no_value [''value'', ''age''] = Inl (KeyError [''value''])"
  unfolding table_no_value_def by code_simp

lemma demo_no_value_result:
  "fst (run demo_lib (in_cwd sample_no_value)) = Inl (KeyError [''value''])"
  by (simp add: run_def train_def exec start_simps files_in_cwd no_value_read no_value_features)

lemma demo_no_value_calls:
  "calls (snd (run demo_lib (in_cwd sample_no_value))) =
     [(ReadCsv ''sample.csv'', None),
      (GetItemList table_no_value [''value'', ''age''], Some (KeyError [''value'']))]"
  by (simp add: run_def train_def exec start_simps files_in_cwd no_value_read no_value_features)

lemma wide_read: "read_csv demo_lib (Some sample_wide) = Inr table_wide"
  unfolding table_wide_def by code_simp

lemma wide_features: "getitem_list demo_lib table_wide [''value'', ''age''] = Inr features_ok"
  unfolding table_wide_def features_ok_def by code_simp

lemma wide_target: "getitem demo_lib table_wide ''name'' = Inr target_wide"
  unfolding table_wide_def target_wide_def by code_simp

lemma wide_lstsq:
  "demo_lstsq matrix_ok
     [2000000000000000, 5000000000000000, 3000000000000000,
      6000000000000000, 9000000000000000, 9000000000000000] =
   Inr ([0, 3000000000000000, 0, 0, 0, 1000000000000000], 2000000000000000)"
  by (simp add: matrix_ok_def solver_defs)

lemma wide_fit: "fit demo_lib (LinearRegression demo_lib) matrix_ok target_wide = Inr model_wide"
  by (simp add: demo_lib_def spec_lib_def spec_fit_def demo_backend_def numbers_def
        target_wide_def model_wide_def wide_lstsq)

lemma wide_predict:
  "predict demo_lib model_wide matrix_ok =
     Inr [2000000000000000, 5000000000000000, 3000000000000000,
          6000000000000000, 9000000000000000, 9000000000000000]"
  by (simp add: demo_lib_def spec_lib_def spec_predict_def model_wide_def matrix_ok_def
        linear_predict_def)

lemma wide_coef:
  "coef demo_lib model_wide = Inr [0, 3000000000000000, 0, 0, 0, 1000000000000000]"
  by (simp add: demo_lib_def spec_lib_def spec_coef_def model_wide_def)

lemma wide_intercept: "intercept demo_lib model_wide = Inr 2000000000000000"
  by (simp add: demo_lib_def spec_lib_def spec_intercept_def model_wide_def)

lemma wide_str_vec:
  "str_vec demo_lib [0, 3000000000000000, 0, 0, 0, 1000000000000000] =
     ''[               0 3000000000000000                0                0'' @ [CHR 0x0A] @
     ''                0 1000000000000000]''"
  by (simp add: demo_lib_def spec_lib_def demo_backend_def show_defs)

lemma wide_str_num: "str_num demo_lib 2000000000000000 = ''2000000000000000''"
  by (simp add: demo_lib_def spec_lib_def demo_backend_def show_defs)

lemmas wide_facts = files_in_cwd wide_read wide_features wide_target ok_expand wide_fit
  wide_predict wide_coef wide_intercept wide_str_vec wide_str_num

lemma demo_wide_result: "fst (run demo_lib (in_cwd sample_wide)) = Inr ()"
  by (simp add: run_def train_def exec start_simps wide_facts)

lemma demo_wide_lines: "line_count (printed demo_lib (in_cwd sample_wide)) = 3"
  by (simp add: printed_def run_def train_def exec start_simps wide_facts in_cwd_def
        line_count_def)


lemma ragged_malformed: "\<not> rectangular sample_ragged"
  by code_simp

lemma ragged_read: "read_csv demo_lib (Some sample_ragged) = Inr table_ragged"
  unfolding table_ragged_def by code_simp

lemma ragged_features: "getitem_list demo_lib table_ragged [''value'', ''age''] = Inr features_ok"
  unfolding table_ragged_def features_ok_def by code_simp

lemma ragged_target: "getitem demo_lib table_ragged ''name'' = Inr target_ok"
  unfolding table_ragged_def target_ok_def by code_simp

lemmas ragged_facts = files_in_cwd ragged_read ragged_features ragged_target ok_expand ok_fit
  ok_predict ok_coef ok_intercept ok_str_vec ok_str_num

lemma demo_ragged_result: "fst (run demo_lib (in_cwd sample_ragged)) = Inr ()"
  by (simp add: run_def train_def exec start_simps ragged_facts)

lemma demo_ragged_printed:
  "printed demo_lib (in_cwd sample_ragged) =
     ''Coefficients: [0 3 0 0 0 1]'' @ [CHR 0x0A] @ ''Intercept: 2'' @ [CHR 0x0A]"
  by (simp add: printed_def run_def train_def exec start_simps ragged_facts in_cwd_def)

section \<open>The claims on the example files\<close>

text \<open>
  On the six-row table every library call succeeds and the run goes through all twelve
  calls.
\<close>

theorem train_linear_sequence_witness:
  "fst (run demo_lib (in_cwd sample_ok)) = Inr () \<and>
   steps demo_lib (in_cwd sample_ok) = program_steps \<and>
   prefix (steps demo_lib (in_cwd sample_ok)) program_steps \<and>
   calls (snd (run demo_lib (in_cwd sample_ok))) =
     until_raise (linear_sequence demo_lib (in_cwd sample_ok)) \<and>
   length (until_raise (linear_sequence demo_lib (in_cwd sample_ok))) = 12"
proof -
  note t = train_linear_sequence [where L = demo_lib and w = "in_cwd sample_ok"]
  from t have c: "calls (snd (run demo_lib (in_cwd sample_ok))) =
      until_raise (linear_sequence demo_lib (in_cwd sample_ok))"
    by (rule conjunct1)
  have l: "length (until_raise (linear_sequence demo_lib (in_cwd sample_ok))) = 12"
    unfolding c [symmetric] demo_ok_calls by simp
  from t demo_ok_result have "steps demo_lib (in_cwd sample_ok) = program_steps"
    and "prefix (steps demo_lib (in_cwd sample_ok)) program_steps"
    by simp_all
  with demo_ok_result c l show ?thesis by (intro conjI)
qed

text \<open>
  On the table without the column \<open>value\<close> the selection of line 9 raises and the run ends
  there, after two calls: nothing is expanded, fitted, predicted or printed. So a run does
  not go through the whole sequence on every input file.
\<close>

theorem train_linear_sequence_counterexample:
  "fst (run demo_lib (in_cwd sample_no_value)) = Inl (KeyError [''value'']) \<and>
   steps demo_lib (in_cwd sample_no_value) = [Load, Load] \<and>
   steps demo_lib (in_cwd sample_no_value) \<noteq> program_steps \<and>
   printed demo_lib (in_cwd sample_no_value) = []"
  by (simp add: steps_def printed_def demo_no_value_result demo_no_value_calls program_steps_def
        run_def train_def exec start_simps files_in_cwd no_value_read no_value_features)

theorem train_prints_two_records_witness:
  "fst (run demo_lib (in_cwd sample_ok)) = Inr () \<and>
   (\<exists>Xp y m c i.
     (Fit (LinearRegression demo_lib) Xp y, None)
        \<in> set (calls (snd (run demo_lib (in_cwd sample_ok)))) \<and>
     fit demo_lib (LinearRegression demo_lib) Xp y = Inr m \<and>
     coef demo_lib m = Inr c \<and> intercept demo_lib m = Inr i \<and>
     printed demo_lib (in_cwd sample_ok) =
       ''Coefficients: '' @ str_vec demo_lib c @ [CHR 0x0A] @
       ''Intercept: '' @ str_num demo_lib i @ [CHR 0x0A] \<and>
     line_count (printed demo_lib (in_cwd sample_ok)) =
       2 + line_count (str_vec demo_lib c) + line_count (str_num demo_lib i))"
  using demo_ok_result train_prints_two_records [OF demo_ok_result] by (rule conjI)

text \<open>
  With the target scaled by \<open>10\<^sup>1\<^sup>5\<close> the six coefficients, padded to a common width, do
  not fit in 75 columns: the rendering of the array has a line break and the run, which does
  not abort, writes three lines.
\<close>

theorem train_prints_two_records_counterexample:
  "fst (run demo_lib (in_cwd sample_wide)) = Inr () \<and>
   line_count (printed demo_lib (in_cwd sample_wide)) = 3"
  using demo_wide_result demo_wide_lines by (rule conjI)

theorem train_fit_arguments_witness:
  "(Fit (LinearRegression demo_lib) matrix_ok target_ok, None)
     \<in> set (calls (snd (run demo_lib (in_cwd sample_ok))))"
  using train_fit_arguments [where L = demo_lib and w = "in_cwd sample_ok"
      and ?m0.0 = "LinearRegression demo_lib" and Xp = matrix_ok and y = target_ok and r = None]
  by (simp add: ok_facts raised_def)

lemma demo_parse_no_value: "parse_csv demo_backend sample_no_value = Inr table_no_value"
  using no_value_read by (simp add: demo_lib_def spec_lib_def spec_read_csv_def)

theorem train_no_error_handling_witness:
  "fst (run demo_lib (in_cwd sample_no_value)) = Inl (KeyError [''value'']) \<and>
   snd (last (calls (snd (run demo_lib (in_cwd sample_no_value))))) = Some (KeyError [''value'']) \<and>
   files (in_cwd sample_no_value) ''sample.csv'' = Some sample_no_value \<and>
   parse_csv demo_backend sample_no_value = Inr table_no_value \<and>
   ''value'' \<notin> set (columns table_no_value) \<and>
   (\<exists>ns. fst (run (spec_lib demo_backend) (in_cwd sample_no_value)) = Inl (KeyError ns) \<and>
         ns \<noteq> [] \<and> set ns \<inter> set (columns table_no_value) = {} \<and>
         printed (spec_lib demo_backend) (in_cwd sample_no_value) = [])"
proof -
  have c: "''value'' \<notin> set (columns table_no_value)" by (simp add: table_no_value_def)
  from train_no_error_handling [where L = demo_lib and w = "in_cwd sample_no_value"
      and e = "KeyError [''value'']" and B = demo_backend and content = sample_no_value
      and df = table_no_value]
    demo_no_value_result files_in_cwd [of sample_no_value] demo_parse_no_value c
  show ?thesis by simp
qed

text \<open>
  The file with the short rows is not rectangular, and the run on it does not abort: the
  reader leaves the missing fields of the unused column empty, and the fit is the one of
  the first example.
\<close>

theorem train_no_error_handling_counterexample:
  "\<not> rectangular sample_ragged \<and>
   fst (run demo_lib (in_cwd sample_ragged)) = Inr () \<and>
   printed demo_lib (in_cwd sample_ragged) =
     ''Coefficients: [0 3 0 0 0 1]'' @ [CHR 0x0A] @ ''Intercept: 2'' @ [CHR 0x0A]"
  using ragged_malformed demo_ragged_result demo_ragged_printed by (intro conjI)

theorem train_only_writes_stdout_witness:
  "files (snd (run demo_lib (elsewhere sample_ok))) = files (elsewhere sample_ok) \<and>
   environ (snd (run demo_lib (elsewhere sample_ok))) = environ (elsewhere sample_ok) \<and>
   argv (snd (run demo_lib (elsewhere sample_ok))) = [''train.py'', ''other.csv''] \<and>
   printed demo_lib ((elsewhere sample_ok)\<lparr>environ := Map.empty, argv := []\<rparr>) =
     printed demo_lib (elsewhere sample_ok)"
  using train_only_writes_stdout [where L = demo_lib and w = "elsewhere sample_ok"
      and ev = Map.empty and av = "[]"]
  by (simp add: elsewhere_def)

theorem predict_result_unused_witness:
  "fst (run_without_predict demo_lib (in_cwd sample_ok)) = Inr () \<and>
   length (calls (snd (run_without_predict demo_lib (in_cwd sample_ok)))) = 11"
proof -
  have h: "\<forall>cr \<in> set (calls (snd (run demo_lib (in_cwd sample_ok)))).
      is_predict (fst cr) \<longrightarrow> snd cr = None"
    by (simp add: demo_ok_calls)
  from predict_result_unused [OF h] demo_ok_result show ?thesis
    by (simp add: demo_ok_calls)
qed

theorem input_path_hard_coded_witness:
  "''other.csv'' \<noteq> ''sample.csv'' \<and>
   fst (run demo_lib ((in_cwd sample_ok)
          \<lparr>files := (files (in_cwd sample_ok))(''other.csv'' := Some sample_no_value)\<rparr>)) = Inr () \<and>
   map fst (filter (\<lambda>cr. is_read (fst cr)) (calls (snd (run demo_lib (in_cwd sample_ok))))) =
     [ReadCsv ''sample.csv'']"
  using input_path_hard_coded [where L = demo_lib and w = "in_cwd sample_ok"
      and p = "''other.csv''" and c = "Some sample_no_value"] demo_ok_result
  by simp


lemma demo_parse_ok: "parse_csv demo_backend sample_ok = Inr table_ok"
  using ok_read by (simp add: demo_lib_def spec_lib_def spec_read_csv_def)

lemma demo_ok_fit_logged:
  "(Fit None matrix_ok target_ok, None)
     \<in> set (calls (snd (run (spec_lib demo_backend) (in_cwd sample_ok))))"
  using demo_ok_calls by (simp add: demo_lib_def spec_lib_def)




theorem fit_matrix_is_degree_2_expansion_witness:
  "files (in_cwd sample_ok) ''sample.csv'' = Some sample_ok \<and>
   parse_csv demo_backend sample_ok = Inr table_ok \<and>
   (Fit None matrix_ok target_ok, None)
     \<in> set (calls (snd (run (spec_lib demo_backend) (in_cwd sample_ok)))) \<and>
   (4::nat) < length (rws table_ok) \<and>
   length matrix_ok = length (rws table_ok) \<and>
   (\<exists>v a. cell_at table_ok (rws table_ok ! 4) ''value'' = Num v \<and>
           cell_at table_ok (rws table_ok ! 4) ''age'' = Num a \<and>
           matrix_ok ! 4 = [1, v, a, v * v, v * a, a * a])"
proof -
  have k: "(4::nat) < length (rws table_ok)" by (simp add: table_ok_def)
  from fit_matrix_is_degree_2_expansion [OF files_in_cwd demo_parse_ok demo_ok_fit_logged k]
    files_in_cwd [of sample_ok] demo_parse_ok demo_ok_fit_logged k
  show ?thesis by simp
qed


end
